theory Spec2Isabelle
  imports Main "HOL-Library.Word" "HOL-Library.Multiset"
begin

section \<open>Values exchanged with the server\<close>

text \<open>
  The override endpoint receives a parsed JSON body and stores part of it unchanged, and
  detection returns either such a stored value or a list of three integers. Both are
  therefore Python values. JSON numbers are modelled as integers; object keys are
  strings and each key occurs once in a parsed object.
\<close>

datatype pyval =
    PNone
  | PBool bool
  | PInt int
  | PStr string
  | PList "pyval list"
  | PDict "(string \<times> pyval) list"

datatype exn =
    ConnectionFailed
  | ReadTimeout
  | HTTPError nat
  | UnidentifiedImage
  | ValueError
  | TypeError
  | AttributeError
  | BadRequest

text \<open>Python truthiness, as used by \<^verbatim>\<open>not texture_id\<close> and \<^verbatim>\<open>not color\<close>.\<close>

fun truthy :: "pyval \<Rightarrow> bool" where
  "truthy PNone = False"
| "truthy (PBool b) = b"
| "truthy (PInt n) = (n \<noteq> 0)"
| "truthy (PStr s) = (s \<noteq> [])"
| "truthy (PList xs) = (xs \<noteq> [])"
| "truthy (PDict kvs) = (kvs \<noteq> [])"

text \<open>\<^verbatim>\<open>len(v)\<close>: defined on strings, lists and dicts, a TypeError elsewhere.\<close>

fun py_len :: "pyval \<Rightarrow> exn + nat" where
  "py_len (PStr s) = Inr (length s)"
| "py_len (PList xs) = Inr (length xs)"
| "py_len (PDict kvs) = Inr (length kvs)"
| "py_len PNone = Inl TypeError"
| "py_len (PBool b) = Inl TypeError"
| "py_len (PInt n) = Inl TypeError"

text \<open>\<^verbatim>\<open>data.get(k)\<close>: only a dict has the method; a missing key gives None.\<close>

fun py_get :: "pyval \<Rightarrow> string \<Rightarrow> exn + pyval" where
  "py_get (PDict kvs) k = Inr (case map_of kvs k of None \<Rightarrow> PNone | Some v \<Rightarrow> v)"
| "py_get PNone k = Inl AttributeError"
| "py_get (PBool b) k = Inl AttributeError"
| "py_get (PInt n) k = Inl AttributeError"
| "py_get (PStr s) k = Inl AttributeError"
| "py_get (PList xs) k = Inl AttributeError"

text \<open>
  Keys of a Python dict are compared by hash and equality: \<^verbatim>\<open>True\<close> and \<^verbatim>\<open>1\<close> are the
  same key, a list or a dict is unhashable.
\<close>

datatype pykey = KNone | KInt int | KStr string

fun py_key :: "pyval \<Rightarrow> exn + pykey" where
  "py_key PNone = Inr KNone"
| "py_key (PBool b) = Inr (KInt (if b then 1 else 0))"
| "py_key (PInt n) = Inr (KInt n)"
| "py_key (PStr s) = Inr (KStr s)"
| "py_key (PList xs) = Inl TypeError"
| "py_key (PDict kvs) = Inl TypeError"

section \<open>The override table\<close>

text \<open>
  \<^verbatim>\<open>SHIRT_OVERRIDES\<close> is a dict, empty at start. It is kept as an association list in
  insertion order with one entry per key, so that \<^verbatim>\<open>len\<close> is the length of the list.
\<close>

type_synonym overrides = "(pykey \<times> pyval) list"

definition dict_get :: "overrides \<Rightarrow> pykey \<Rightarrow> pyval option" where
  "dict_get d k = map_of d k"

fun dict_set :: "overrides \<Rightarrow> pykey \<Rightarrow> pyval \<Rightarrow> overrides" where
  "dict_set [] k v = [(k, v)]"
| "dict_set ((k', v') # d) k v =
     (if k' = k then (k, v) # d else (k', v') # dict_set d k v)"

section \<open>Images\<close>

record pixel =
  red :: "8 word"
  green :: "8 word"
  blue :: "8 word"
  alpha :: "8 word"

text \<open>A decoded RGBA image: its size and the pixel at column x, row y.\<close>

record image =
  width :: nat
  height :: nat
  pixel_at :: "nat \<Rightarrow> nat \<Rightarrow> pixel"

type_synonym box = "nat \<times> nat \<times> nat \<times> nat"

definition transparent :: pixel where
  "transparent = \<lparr>red = 0, green = 0, blue = 0, alpha = 0\<rparr>"

text \<open>
  \<^verbatim>\<open>img.crop((x0, y0, x1, y1))\<close> followed by \<^verbatim>\<open>np.array\<close>: the rows y0..y1-1 of the columns
  x0..x1-1. The imaging library refuses a box whose right or lower edge lies before its
  left or upper edge, and fills what lies outside the image with transparent black. A
  box of width or height 0 gives an array without pixels.
\<close>

definition crop :: "image \<Rightarrow> box \<Rightarrow> exn + pixel list list" where
  "crop img b =
     (case b of (x0, y0, x1, y1) \<Rightarrow>
        if x1 < x0 \<or> y1 < y0 then Inl ValueError
        else Inr (map (\<lambda>y. map (\<lambda>x. if x < width img \<and> y < height img
                                        then pixel_at img x y else transparent)
                               [x0..<x1])
                      [y0..<y1]))"

text \<open>\<^verbatim>\<open>np.array(img)\<close>: all rows of the image.\<close>

definition full_pixels :: "image \<Rightarrow> pixel list list" where
  "full_pixels img =
     map (\<lambda>y. map (\<lambda>x. pixel_at img x y) [0..<width img]) [0..<height img]"

text \<open>
  \<^verbatim>\<open>pixels[pixels[:, :, 3] > 128]\<close>: the pixels whose alpha exceeds 128, in row-major
  order.
\<close>

definition opaque :: "pixel list list \<Rightarrow> pixel list" where
  "opaque rows = filter (\<lambda>p. 128 < alpha p) (concat rows)"

text \<open>
  The four boxes. The source computes each bound as \<^verbatim>\<open>int(width * 0.7)\<close> and so on, a
  double-precision product truncated to an integer. The truncated product of a dimension
  d and k tenths is the parameter \<open>sc d k\<close>; it is not always the exact \<open>d * k div 10\<close>
  (the double nearest to 0.7 lies below 0.7), and nothing proved here depends on it.
\<close>

definition detection_areas :: "(nat \<Rightarrow> nat \<Rightarrow> nat) \<Rightarrow> nat \<Rightarrow> nat \<Rightarrow> box list" where
  "detection_areas sc w h =
     [ (sc w 7, sc h 4, sc w 9, sc h 6),
       (sc w 1, sc h 4, sc w 3, sc h 6),
       (sc w 1, sc h 3, sc w 9, sc h 7),
       (sc w 6, sc h 2, sc w 8, sc h 4) ]"

text \<open>
  One such truncation, the exact one, for the example images. It is not the function of
  the source on every dimension (for the width 90 the source computes 62 and this gives
  63); on the dimensions 2 and 10 of the example images, the only ones it is applied to,
  the two agree.
\<close>

definition tenths :: "nat \<Rightarrow> nat \<Rightarrow> nat" where
  "tenths d k = d * k div 10"

text \<open>
  The loop over the boxes: each box is cropped and its opaque pixels are appended to
  the pool. The guard \<^verbatim>\<open>len(region_opaque_pixels) > 0\<close> only skips appending nothing.
\<close>

fun scan_areas :: "image \<Rightarrow> box list \<Rightarrow> pixel list \<Rightarrow> exn + pixel list" where
  "scan_areas img [] pool = Inr pool"
| "scan_areas img (b # bs) pool =
     (case crop img b of
        Inl e \<Rightarrow> Inl e
      | Inr rows \<Rightarrow>
          (if length (opaque rows) > 0 then scan_areas img bs (pool @ opaque rows)
           else scan_areas img bs pool))"

text \<open>
  \<^verbatim>\<open>np.mean([p[:3] for p in pool], axis=0).astype(int).tolist()\<close>: the mean of each of
  the three colour channels, truncated. The mean is accumulated in double precision; the
  channel sums are integers far below 2^53, so the sum is exact and the truncated
  quotient is the integer quotient.
\<close>

definition channel_mean :: "(pixel \<Rightarrow> 8 word) \<Rightarrow> pixel list \<Rightarrow> int" where
  "channel_mean ch ps = int (sum_list (map (\<lambda>p. unat (ch p)) ps) div length ps)"

definition avg_color :: "pixel list \<Rightarrow> pyval" where
  "avg_color ps =
     PList [PInt (channel_mean red ps), PInt (channel_mean green ps),
            PInt (channel_mean blue ps)]"

definition white :: pyval where
  "white = PList [PInt 255, PInt 255, PInt 255]"

text \<open>
  The body of the \<^verbatim>\<open>with Image.open(...)\<close> block for a given list of boxes: pool the
  opaque pixels of the boxes; with none, fall back to the whole image; with none there
  either, return white.
\<close>

definition aggregate :: "image \<Rightarrow> box list \<Rightarrow> exn + pyval" where
  "aggregate img bs =
     (case scan_areas img bs [] of
        Inl e \<Rightarrow> Inl e
      | Inr pool \<Rightarrow>
          if length pool = 0 then
            (let pool' = opaque (full_pixels img) in
             if length pool' = 0 then Inr white else Inr (avg_color pool'))
          else Inr (avg_color pool))"

definition analyse_image :: "(nat \<Rightarrow> nat \<Rightarrow> nat) \<Rightarrow> image \<Rightarrow> exn + pyval" where
  "analyse_image sc img = aggregate img (detection_areas sc (width img) (height img))"

section \<open>The remote source and the server state\<close>

text \<open>
  What lies outside the program: the answer of the asset service to a request for an
  identifier (a failed connection, a timeout, or a status code with the body), the image
  decoder together with the conversion to RGBA (\<open>None\<close> when it raises), and the truncated
  products of the box table.
\<close>

datatype http_result =
    NoConnection
  | TimedOut
  | Response nat "8 word list"

record world =
  http_get :: "string \<Rightarrow> http_result"
  image_open :: "8 word list \<Rightarrow> image option"
  int_mul :: "nat \<Rightarrow> nat \<Rightarrow> nat"

text \<open>
  The state of the process: the override table, the entries of the memoising decorator
  (most recently used first), and the identifiers requested from the remote source so
  far, oldest first. Log output is not modelled.
\<close>

record server =
  SHIRT_OVERRIDES :: overrides
  lru :: "(string \<times> pyval) list"
  fetched :: "string list"

definition initial :: server where
  "initial = \<lparr>SHIRT_OVERRIDES = [], lru = [], fetched = []\<rparr>"

text \<open>\<^verbatim>\<open>response.raise_for_status()\<close> raises for the status codes 400 to 599.\<close>

definition raise_for_status :: "nat \<Rightarrow> bool" where
  "raise_for_status status = (400 \<le> status \<and> status < 600)"

text \<open>
  The statements of the \<^verbatim>\<open>try\<close> block after the override test: fetch, check the status,
  decode, analyse. Every exception is a left value.
\<close>

definition fetch_and_analyse :: "world \<Rightarrow> string \<Rightarrow> exn + pyval" where
  "fetch_and_analyse w texture_id =
     (case http_get w texture_id of
        NoConnection \<Rightarrow> Inl ConnectionFailed
      | TimedOut \<Rightarrow> Inl ReadTimeout
      | Response status content \<Rightarrow>
          if raise_for_status status then Inl (HTTPError status)
          else (case image_open w content of
                  None \<Rightarrow> Inl UnidentifiedImage
                | Some img \<Rightarrow> analyse_image (int_mul w) img))"

text \<open>The whole \<^verbatim>\<open>try\<close> block: the override test comes first.\<close>

definition detect_try :: "world \<Rightarrow> overrides \<Rightarrow> string \<Rightarrow> exn + pyval" where
  "detect_try w ov texture_id =
     (case dict_get ov (KStr texture_id) of
        Some c \<Rightarrow> Inr c
      | None \<Rightarrow> fetch_and_analyse w texture_id)"

text \<open>
  The undecorated function: the \<^verbatim>\<open>try\<close> block with its handler, which turns every
  exception into white. A request is sent exactly when no override answers.
\<close>

definition detect_body :: "world \<Rightarrow> server \<Rightarrow> string \<Rightarrow> pyval \<times> server" where
  "detect_body w s texture_id =
     ((case detect_try w (SHIRT_OVERRIDES s) texture_id of
         Inl e \<Rightarrow> white
       | Inr c \<Rightarrow> c),
      (case dict_get (SHIRT_OVERRIDES s) (KStr texture_id) of
         Some c \<Rightarrow> s
       | None \<Rightarrow> s\<lparr>fetched := fetched s @ [texture_id]\<rparr>))"

text \<open>
  \<^verbatim>\<open>@lru_cache(maxsize=100)\<close>: a hit returns the stored value without calling the
  function and makes the entry the most recent one; a miss calls the function and stores
  what it returns, dropping the least recently used entry when the cache is full.
\<close>

definition maxsize :: nat where
  "maxsize = 100"

definition cache_hit :: "(string \<times> pyval) list \<Rightarrow> string \<Rightarrow> pyval \<Rightarrow> (string \<times> pyval) list" where
  "cache_hit c k v = (k, v) # filter (\<lambda>p. fst p \<noteq> k) c"

definition cache_store :: "(string \<times> pyval) list \<Rightarrow> string \<Rightarrow> pyval \<Rightarrow> (string \<times> pyval) list" where
  "cache_store c k v = (if length c \<ge> maxsize then (k, v) # butlast c else (k, v) # c)"

definition detect_sleeve_color :: "world \<Rightarrow> server \<Rightarrow> string \<Rightarrow> pyval \<times> server" where
  "detect_sleeve_color w s texture_id =
     (case map_of (lru s) texture_id of
        Some v \<Rightarrow> (v, s\<lparr>lru := cache_hit (lru s) texture_id v\<rparr>)
      | None \<Rightarrow>
          (case detect_body w s texture_id of
             (v, s') \<Rightarrow> (v, s'\<lparr>lru := cache_store (lru s') texture_id v\<rparr>)))"

section \<open>The override endpoint\<close>

text \<open>
  The request body as \<^verbatim>\<open>request.json\<close> sees it: a parsed JSON value, or no JSON at all
  (the access raises). The answers: 200 with \<^verbatim>\<open>success: true\<close> and the size of the table
  (the message text is not modelled), 400 for invalid parameters, 500 for an exception.
\<close>

datatype body = NotJson | Json pyval

datatype reply =
    Added nat
  | InvalidParameters
  | Failed exn

text \<open>
  The \<^verbatim>\<open>try\<close> block of the endpoint. The test \<^verbatim>\<open>not texture_id or not color or
  len(color) != 3\<close> is evaluated left to right and stops at the first true operand; the
  assignment hashes the key.
\<close>

definition add_override_try :: "server \<Rightarrow> body \<Rightarrow> exn + (reply \<times> server)" where
  "add_override_try s b =
     (case b of
        NotJson \<Rightarrow> Inl BadRequest
      | Json data \<Rightarrow>
          (case py_get data ''texture_id'' of
             Inl e \<Rightarrow> Inl e
           | Inr texture_id \<Rightarrow>
               (case py_get data ''color'' of
                  Inl e \<Rightarrow> Inl e
                | Inr color \<Rightarrow>
                    if \<not> truthy texture_id then Inr (InvalidParameters, s)
                    else if \<not> truthy color then Inr (InvalidParameters, s)
                    else (case py_len color of
                            Inl e \<Rightarrow> Inl e
                          | Inr n \<Rightarrow>
                              if n \<noteq> 3 then Inr (InvalidParameters, s)
                              else (case py_key texture_id of
                                      Inl e \<Rightarrow> Inl e
                                    | Inr k \<Rightarrow>
                                        (let ov = dict_set (SHIRT_OVERRIDES s) k color
                                         in Inr (Added (length ov),
                                                 s\<lparr>SHIRT_OVERRIDES := ov\<rparr>)))))))"

definition add_override :: "server \<Rightarrow> body \<Rightarrow> reply \<times> server" where
  "add_override s b =
     (case add_override_try s b of
        Inl e \<Rightarrow> (Failed e, s)
      | Inr r \<Rightarrow> r)"

section \<open>Colour triples\<close>

text \<open>A colour triple: a list of three integers, each from 0 to 255.\<close>

fun channel :: "pyval \<Rightarrow> bool" where
  "channel (PInt n) = (0 \<le> n \<and> n \<le> 255)"
| "channel PNone = False"
| "channel (PBool b) = False"
| "channel (PStr s) = False"
| "channel (PList xs) = False"
| "channel (PDict kvs) = False"

fun is_color :: "pyval \<Rightarrow> bool" where
  "is_color (PList xs) = (length xs = 3 \<and> list_all channel xs)"
| "is_color PNone = False"
| "is_color (PBool b) = False"
| "is_color (PInt n) = False"
| "is_color (PStr s) = False"
| "is_color (PDict kvs) = False"

text \<open>Every value the two tables hold is a colour triple.\<close>

definition colors_only :: "server \<Rightarrow> bool" where
  "colors_only s =
     (list_all (\<lambda>p. is_color (snd p)) (SHIRT_OVERRIDES s) \<and>
      list_all (\<lambda>p. is_color (snd p)) (lru s))"

text \<open>
  The remote source serves a decodable image for an identifier: the request succeeds,
  the status does not raise, and the decoder returns the image.
\<close>

definition serves :: "world \<Rightarrow> string \<Rightarrow> image \<Rightarrow> bool" where
  "serves w texture_id img =
     (case http_get w texture_id of
        NoConnection \<Rightarrow> False
      | TimedOut \<Rightarrow> False
      | Response status content \<Rightarrow>
          \<not> raise_for_status status \<and> image_open w content = Some img)"

text \<open>The remote source fails for an identifier: detection raises before any analysis.\<close>

definition fetch_fails :: "world \<Rightarrow> string \<Rightarrow> bool" where
  "fetch_fails w texture_id =
     (case http_get w texture_id of
        NoConnection \<Rightarrow> True
      | TimedOut \<Rightarrow> True
      | Response status content \<Rightarrow>
          raise_for_status status \<or> image_open w content = None)"

section \<open>Sequences of requests\<close>

text \<open>
  What a client can make the process do between two calls: a detection for some
  identifier against some state of the remote source, or a post to the override
  endpoint. \<open>kept_throughout k s rs\<close> speaks of the requests \<open>rs\<close> made from the state
  \<open>s\<close> on: after each of them the cache holds an entry for \<open>k\<close>. It says nothing about
  \<open>s\<close> itself.
\<close>

datatype request = Detect world string | AddOverride body

fun handle :: "server \<Rightarrow> request \<Rightarrow> server" where
  "handle s (Detect w texture_id) = snd (detect_sleeve_color w s texture_id)"
| "handle s (AddOverride b) = snd (add_override s b)"

fun kept_throughout :: "string \<Rightarrow> server \<Rightarrow> request list \<Rightarrow> bool" where
  "kept_throughout k s [] = True"
| "kept_throughout k s (r # rs) =
     (map_of (lru (handle s r)) k \<noteq> None \<and> kept_throughout k (handle s r) rs)"

section \<open>Example inputs\<close>

text \<open>
  Two images: four pixels of alpha exactly 128, and a 10 by 10 canvas of one opaque
  colour, on which each of the four boxes holds pixels. A remote source that serves a
  given image for every identifier, with the exact truncation (which agrees with the
  double-precision one on the sizes used here), and one that cannot be reached. A
  well-formed body for the override endpoint.
\<close>

definition faint :: image where
  "faint = \<lparr>width = 2, height = 2,
             pixel_at = (\<lambda>x y. \<lparr>red = 10, green = 20, blue = 30, alpha = 128\<rparr>)\<rparr>"

definition solid :: image where
  "solid = \<lparr>width = 10, height = 10,
             pixel_at = (\<lambda>x y. \<lparr>red = 12, green = 34, blue = 56, alpha = 200\<rparr>)\<rparr>"

definition serving :: "image \<Rightarrow> world" where
  "serving img =
     \<lparr>http_get = (\<lambda>t. Response 200 []), image_open = (\<lambda>b. Some img), int_mul = tenths\<rparr>"

definition offline :: world where
  "offline = \<lparr>http_get = (\<lambda>t. NoConnection), image_open = (\<lambda>b. None), int_mul = tenths\<rparr>"

definition post :: "string \<Rightarrow> pyval \<Rightarrow> body" where
  "post texture_id color = Json (PDict [(''texture_id'', PStr texture_id), (''color'', color)])"

section \<open>Pooling and averaging\<close>

lemma crop_cases: "crop img b = Inl ValueError \<or> (\<exists>rows. crop img b = Inr rows)"
  by (auto simp: crop_def split: prod.splits)

lemma crop_Inl: "crop img b = Inl e \<Longrightarrow> e = ValueError"
  by (auto simp: crop_def split: prod.splits if_splits)

lemma scan_areas_Inr:
  "\<forall>b\<in>set bs. crop img b \<noteq> Inl ValueError \<Longrightarrow>
   scan_areas img bs pool = Inr (pool @ concat (map (\<lambda>b. opaque (projr (crop img b))) bs))"
proof (induction bs arbitrary: pool)
  case Nil
  then show ?case by simp
next
  case (Cons b bs)
  from Cons.prems obtain rows where r: "crop img b = Inr rows"
    using crop_cases[of img b] by auto
  from Cons.prems have rest: "\<forall>b\<in>set bs. crop img b \<noteq> Inl ValueError" by simp
  show ?case using r Cons.IH[OF rest] by simp
qed

lemma scan_areas_Inl:
  "\<exists>b\<in>set bs. crop img b = Inl ValueError \<Longrightarrow> scan_areas img bs pool = Inl ValueError"
proof (induction bs arbitrary: pool)
  case Nil
  then show ?case by simp
next
  case (Cons b bs)
  show ?case
  proof (cases "crop img b")
    case (Inl e)
    then show ?thesis using crop_Inl[OF Inl] by simp
  next
    case (Inr rows)
    with Cons.prems have "\<exists>b\<in>set bs. crop img b = Inl ValueError" by auto
    then show ?thesis using Inr Cons.IH by simp
  qed
qed

lemma channel_mean_mset:
  "mset ps = mset qs \<Longrightarrow> channel_mean ch ps = channel_mean ch qs"
proof -
  assume e: "mset ps = mset qs"
  have "sum_list (map (\<lambda>p. unat (ch p)) ps) = sum_mset (image_mset (\<lambda>p. unat (ch p)) (mset ps))"
    by (metis mset_map sum_mset_sum_list)
  moreover have "sum_list (map (\<lambda>p. unat (ch p)) qs) = sum_mset (image_mset (\<lambda>p. unat (ch p)) (mset qs))"
    by (metis mset_map sum_mset_sum_list)
  moreover have "length ps = length qs" using e by (metis size_mset)
  ultimately show ?thesis using e by (simp add: channel_mean_def)
qed

lemma avg_color_mset: "mset ps = mset qs \<Longrightarrow> avg_color ps = avg_color qs"
  by (simp add: avg_color_def channel_mean_mset[of ps qs])

lemma mset_concat_map:
  "mset (concat (map f xs)) = sum_mset (image_mset (\<lambda>b. mset (f b)) (mset xs))"
  by (induction xs) simp_all

lemma mset_pool:
  "mset bs = mset cs \<Longrightarrow> mset (concat (map f bs)) = mset (concat (map f cs))"
  by (simp add: mset_concat_map)

lemma aggregate_perm:
  assumes "mset bs = mset cs"
  shows "aggregate img bs = aggregate img cs"
proof (cases "\<forall>b\<in>set bs. crop img b \<noteq> Inl ValueError")
  case True
  have s: "set bs = set cs" using assms by (metis set_mset_mset)
  let ?f = "\<lambda>b. opaque (projr (crop img b))"
  have m: "mset (concat (map ?f bs)) = mset (concat (map ?f cs))"
    by (rule mset_pool[OF assms])
  have e: "(concat (map ?f bs) = []) = (concat (map ?f cs) = [])"
    using m by (metis mset_zero_iff)
  have 1: "scan_areas img bs [] = Inr (concat (map ?f bs))"
    using scan_areas_Inr[OF True, of "[]"] by simp
  have 2: "scan_areas img cs [] = Inr (concat (map ?f cs))"
    using True s scan_areas_Inr[of cs img "[]"] by simp
  show ?thesis using 1 2 e avg_color_mset[OF m] by (simp add: aggregate_def)
next
  case False
  have s: "set bs = set cs" using assms by (metis set_mset_mset)
  from False have 1: "scan_areas img bs [] = Inl ValueError" by (intro scan_areas_Inl) simp
  from False s have 2: "scan_areas img cs [] = Inl ValueError" by (intro scan_areas_Inl) simp
  show ?thesis using 1 2 by (simp add: aggregate_def)
qed


lemma in_full_pixels:
  "p \<in> set (concat (full_pixels img)) \<longleftrightarrow>
   (\<exists>x y. x < width img \<and> y < height img \<and> p = pixel_at img x y)"
  by (fastforce simp: full_pixels_def)

lemma set_crop:
  assumes "crop img b = Inr rows" "p \<in> set (concat rows)"
  shows "p = transparent \<or> p \<in> set (concat (full_pixels img))"
proof -
  obtain x0 y0 x1 y1 where b: "b = (x0, y0, x1, y1)" by (cases b) auto
  define f where
    "f = (\<lambda>y x. if x < width img \<and> y < height img then pixel_at img x y else transparent)"
  from assms(1) b have rows: "rows = map (\<lambda>y. map (f y) [x0..<x1]) [y0..<y1]"
    by (simp add: crop_def f_def split: if_splits)
  have fx: "\<And>x y. f y x = transparent \<or> f y x \<in> set (concat (full_pixels img))"
    unfolding f_def in_full_pixels by auto
  from assms(2) rows obtain x y where "p = f y x" by auto
  then show ?thesis using fx by simp
qed

lemma opaque_subset:
  "crop img b = Inr rows \<Longrightarrow> set (opaque rows) \<subseteq> set (opaque (full_pixels img))"
proof -
  assume c: "crop img b = Inr rows"
  have "\<not> 128 < alpha transparent" by (simp add: transparent_def)
  then show ?thesis using set_crop[OF c] by (auto simp: opaque_def)
qed

lemma scan_areas_subset:
  "scan_areas img bs pool = Inr pool' \<Longrightarrow>
   set pool' \<subseteq> set pool \<union> set (opaque (full_pixels img))"
proof (induction bs arbitrary: pool)
  case Nil
  then show ?case by simp
next
  case (Cons b bs)
  from Cons.prems obtain rows where r: "crop img b = Inr rows"
    by (cases "crop img b") simp_all
  show ?case
  proof (cases "length (opaque rows) > 0")
    case True
    with Cons.prems r have "scan_areas img bs (pool @ opaque rows) = Inr pool'" by simp
    from Cons.IH[OF this] opaque_subset[OF r] show ?thesis by auto
  next
    case False
    with Cons.prems r have "scan_areas img bs pool = Inr pool'" by simp
    from Cons.IH[OF this] show ?thesis by auto
  qed
qed

lemma aggregate_no_opaque:
  assumes "opaque (full_pixels img) = []"
  shows "aggregate img bs = Inr white \<or> aggregate img bs = Inl ValueError"
proof (cases "scan_areas img bs []")
  case (Inl e)
  have "\<not> (\<forall>b\<in>set bs. crop img b \<noteq> Inl ValueError)"
    using scan_areas_Inr[of bs img "[]"] Inl by auto
  then have "scan_areas img bs [] = Inl ValueError" by (intro scan_areas_Inl) simp
  then show ?thesis by (simp add: aggregate_def)
next
  case (Inr pool)
  from scan_areas_subset[OF Inr] assms have "pool = []" by simp
  then show ?thesis using Inr assms by (simp add: aggregate_def)
qed

lemma channel_mean_solid:
  assumes "ps \<noteq> []" "\<forall>p\<in>set ps. p = q"
  shows "channel_mean ch ps = uint (ch q)"
proof -
  have "map (\<lambda>p. unat (ch p)) ps = replicate (length ps) (unat (ch q))"
    using assms(2) by (induction ps) simp_all
  then have "sum_list (map (\<lambda>p. unat (ch p)) ps) = length ps * unat (ch q)"
    by (simp add: sum_list_replicate)
  moreover have "0 < length ps" using assms(1) by simp
  ultimately show ?thesis by (simp add: channel_mean_def)
qed

lemma avg_color_solid:
  assumes "ps \<noteq> []" "\<forall>p\<in>set ps. p = q"
  shows "avg_color ps = PList [PInt (uint (red q)), PInt (uint (green q)), PInt (uint (blue q))]"
  using assms by (simp add: avg_color_def channel_mean_solid[of ps q])

lemma aggregate_solid:
  assumes valid: "\<forall>b\<in>set bs. crop img b \<noteq> Inl ValueError"
    and nonempty: "concat (full_pixels img) \<noteq> []"
    and solid: "\<forall>p\<in>set (concat (full_pixels img)). p = q"
    and op: "128 < alpha q"
  shows "aggregate img bs = Inr (PList [PInt (uint (red q)), PInt (uint (green q)), PInt (uint (blue q))])"
proof -
  have full: "opaque (full_pixels img) = concat (full_pixels img)"
    using solid op by (auto simp: opaque_def filter_id_conv)
  obtain pool where p: "scan_areas img bs [] = Inr pool"
    using scan_areas_Inr[OF valid] by blast
  have sub: "\<forall>p\<in>set pool. p = q"
    using scan_areas_subset[OF p] solid full by auto
  have ne: "opaque (full_pixels img) \<noteq> []"
    using nonempty unfolding full .
  have av: "avg_color (opaque (full_pixels img)) =
      PList [PInt (uint (red q)), PInt (uint (green q)), PInt (uint (blue q))]"
    unfolding full by (rule avg_color_solid[OF nonempty solid])
  show ?thesis
  proof (cases "pool = []")
    case True
    then show ?thesis using p ne av by (simp add: aggregate_def)
  next
    case False
    then show ?thesis using p avg_color_solid[OF False sub] by (simp add: aggregate_def)
  qed
qed

lemma areas_valid:
  assumes "\<forall>d. mono (sc d)"
  shows "\<forall>b\<in>set (detection_areas sc w h). crop img b \<noteq> Inl ValueError"
proof -
  have m: "\<And>d j k. j \<le> k \<Longrightarrow> sc d j \<le> sc d k" using assms by (simp add: mono_def)
  have "sc w 7 \<le> sc w 9" "sc h 4 \<le> sc h 6" "sc w 1 \<le> sc w 3" "sc w 1 \<le> sc w 9"
    "sc h 3 \<le> sc h 7" "sc w 6 \<le> sc w 8" "sc h 2 \<le> sc h 4"
    by (simp_all add: m)
  then show ?thesis by (simp add: detection_areas_def crop_def)
qed

lemma mono_tenths: "\<forall>d. mono (tenths d)"
  by (simp add: mono_def tenths_def div_le_mono)

section \<open>The cache, the override table and the endpoint\<close>

lemma map_of_cache_hit: "map_of (cache_hit c k v) k = Some v"
  by (simp add: cache_hit_def)

lemma map_of_cache_store: "map_of (cache_store c k v) k = Some v"
  by (simp add: cache_store_def)

lemma lru_detect_body: "lru (snd (detect_body w s tid)) = lru s"
  by (simp add: detect_body_def split: option.splits)

lemma overrides_detect_body: "SHIRT_OVERRIDES (snd (detect_body w s tid)) = SHIRT_OVERRIDES s"
  by (simp add: detect_body_def split: option.splits)

lemma detect_hit:
  "map_of (lru s) tid = Some v \<Longrightarrow>
   detect_sleeve_color w s tid = (v, s\<lparr>lru := cache_hit (lru s) tid v\<rparr>)"
  by (simp add: detect_sleeve_color_def)

lemma detect_miss:
  "map_of (lru s) tid = None \<Longrightarrow>
   detect_sleeve_color w s tid =
     (fst (detect_body w s tid),
      (snd (detect_body w s tid))\<lparr>lru := cache_store (lru s) tid (fst (detect_body w s tid))\<rparr>)"
  using lru_detect_body[of w s tid]
  by (auto simp: detect_sleeve_color_def split: prod.splits)

lemma detect_caches:
  "map_of (lru (snd (detect_sleeve_color w s tid))) tid = Some (fst (detect_sleeve_color w s tid))"
proof (cases "map_of (lru s) tid")
  case None
  then show ?thesis by (simp add: detect_miss map_of_cache_store)
next
  case (Some v)
  then show ?thesis by (simp add: detect_hit map_of_cache_hit)
qed

lemma detect_body_override:
  "dict_get (SHIRT_OVERRIDES s) (KStr tid) = Some c \<Longrightarrow> detect_body w s tid = (c, s)"
  by (simp add: detect_body_def detect_try_def)

lemma detect_body_no_override:
  "dict_get (SHIRT_OVERRIDES s) (KStr tid) = None \<Longrightarrow>
   detect_body w s tid =
     ((case fetch_and_analyse w tid of Inl e \<Rightarrow> white | Inr c \<Rightarrow> c),
      s\<lparr>fetched := fetched s @ [tid]\<rparr>)"
  by (simp add: detect_body_def detect_try_def)

lemma fetch_fails_Inl: "fetch_fails w tid \<Longrightarrow> \<exists>e. fetch_and_analyse w tid = Inl e"
  by (auto simp: fetch_fails_def fetch_and_analyse_def split: http_result.splits)

lemma serves_analyse:
  "serves w tid img \<Longrightarrow> fetch_and_analyse w tid = analyse_image (int_mul w) img"
  by (auto simp: serves_def fetch_and_analyse_def split: http_result.splits)

lemma dict_get_set: "dict_get (dict_set d k v) k = Some v"
  by (induction d) (auto simp: dict_get_def)

lemma dict_get_set_other: "k' \<noteq> k \<Longrightarrow> dict_get (dict_set d k v) k' = dict_get d k'"
  by (induction d) (auto simp: dict_get_def)

lemma length_dict_set:
  "length (dict_set d k v) = length d + (if dict_get d k = None then 1 else 0)"
  by (induction d) (auto simp: dict_get_def)

lemma len3_truthy: "py_len c = Inr 3 \<Longrightarrow> truthy c"
  by (cases c) auto

lemma add_override_ok:
  assumes "py_get data ''texture_id'' = Inr t" "py_get data ''color'' = Inr c"
    "truthy t" "py_key t = Inr k" "py_len c = Inr 3"
  shows "add_override s (Json data) =
     (Added (length (dict_set (SHIRT_OVERRIDES s) k c)),
      s\<lparr>SHIRT_OVERRIDES := dict_set (SHIRT_OVERRIDES s) k c\<rparr>)"
  using assms len3_truthy[OF assms(5)]
  by (simp add: add_override_def add_override_try_def Let_def)

lemma lru_add_override: "lru (snd (add_override s b)) = lru s"
  by (auto simp: add_override_def add_override_try_def Let_def split: body.splits sum.splits)

lemma fetched_add_override: "fetched (snd (add_override s b)) = fetched s"
  by (auto simp: add_override_def add_override_try_def Let_def split: body.splits sum.splits)

lemma add_override_stores:
  "snd (add_override s b) = s \<or>
   (\<exists>data c k. b = Json data \<and> py_get data ''color'' = Inr c \<and>
      snd (add_override s b) = s\<lparr>SHIRT_OVERRIDES := dict_set (SHIRT_OVERRIDES s) k c\<rparr>)"
  by (auto simp: add_override_def add_override_try_def Let_def split: body.splits sum.splits)

section \<open>Colour triples are preserved\<close>

lemma channel_mean_range: "0 \<le> channel_mean ch ps \<and> channel_mean ch ps \<le> 255"
proof -
  have b: "sum_list (map (\<lambda>p. unat (ch p)) ps) \<le> 255 * length ps"
  proof (induction ps)
    case Nil
    then show ?case by simp
  next
    case (Cons p ps)
    have "unat (ch p) < 256" using unsigned_less[of "ch p", where 'a = nat] by simp
    then show ?case using Cons by simp
  qed
  have "sum_list (map (\<lambda>p. unat (ch p)) ps) div length ps \<le> 255"
  proof (cases "length ps = 0")
    case True
    then show ?thesis by simp
  next
    case False
    have "sum_list (map (\<lambda>p. unat (ch p)) ps) div length ps \<le> (255 * length ps) div length ps"
      by (rule div_le_mono[OF b])
    then show ?thesis using False by simp
  qed
  then show ?thesis by (simp add: channel_mean_def)
qed

lemma is_color_avg: "is_color (avg_color ps)"
  using channel_mean_range[of red ps] channel_mean_range[of green ps] channel_mean_range[of blue ps]
  by (simp add: avg_color_def)

lemma is_color_white: "is_color white"
  by (simp add: white_def)

lemma is_color_aggregate: "aggregate img bs = Inr c \<Longrightarrow> is_color c"
  by (auto simp: aggregate_def Let_def is_color_avg is_color_white split: sum.splits if_splits)

lemma is_color_fetch: "is_color (case fetch_and_analyse w tid of Inl e \<Rightarrow> white | Inr c \<Rightarrow> c)"
proof (cases "fetch_and_analyse w tid")
  case (Inl e)
  then show ?thesis by (simp add: is_color_white)
next
  case (Inr c)
  then have "\<exists>img. analyse_image (int_mul w) img = Inr c"
    by (auto simp: fetch_and_analyse_def split: http_result.splits if_splits option.splits)
  then show ?thesis using Inr by (auto simp: analyse_image_def is_color_aggregate)
qed

lemma is_color_detection:
  "dict_get (SHIRT_OVERRIDES s) (KStr tid) = None \<Longrightarrow> is_color (fst (detect_body w s tid))"
  by (simp add: detect_body_no_override is_color_fetch)

lemma stored_override_color:
  "colors_only s \<Longrightarrow> dict_get (SHIRT_OVERRIDES s) k = Some c \<Longrightarrow> is_color c"
  by (force simp: colors_only_def dict_get_def list_all_iff dest: map_of_SomeD)

lemma cached_color:
  "colors_only s \<Longrightarrow> map_of (lru s) k = Some c \<Longrightarrow> is_color c"
  by (force simp: colors_only_def list_all_iff dest: map_of_SomeD)

lemma is_color_detect_body: "colors_only s \<Longrightarrow> is_color (fst (detect_body w s tid))"
proof (cases "dict_get (SHIRT_OVERRIDES s) (KStr tid)")
  case None
  then show ?thesis by (rule is_color_detection)
next
  case (Some c)
  assume "colors_only s"
  then show ?thesis using Some stored_override_color[of s "KStr tid" c]
    by (simp add: detect_body_override)
qed

lemma list_all_cache_hit:
  "list_all P c \<Longrightarrow> P (k, v) \<Longrightarrow> list_all P (cache_hit c k v)"
  by (simp add: cache_hit_def list_all_iff)

lemma list_all_cache_store:
  "list_all P c \<Longrightarrow> P (k, v) \<Longrightarrow> list_all P (cache_store c k v)"
  by (auto simp: cache_store_def list_all_iff dest: in_set_butlastD)

lemma list_all_dict_set:
  "list_all P d \<Longrightarrow> P (k, v) \<Longrightarrow> list_all P (dict_set d k v)"
  by (induction d) auto

lemma colors_only_detect:
  assumes "colors_only s"
  shows "is_color (fst (detect_sleeve_color w s tid)) \<and> colors_only (snd (detect_sleeve_color w s tid))"
proof (cases "map_of (lru s) tid")
  case None
  have c: "is_color (fst (detect_body w s tid))" by (rule is_color_detect_body[OF assms])
  have "list_all (\<lambda>p. is_color (snd p)) (cache_store (lru s) tid (fst (detect_body w s tid)))"
    using assms c by (intro list_all_cache_store) (simp_all add: colors_only_def)
  then show ?thesis using assms c None
    by (simp add: detect_miss colors_only_def overrides_detect_body)
next
  case (Some v)
  have c: "is_color v" by (rule cached_color[OF assms Some])
  have "list_all (\<lambda>p. is_color (snd p)) (cache_hit (lru s) tid v)"
    using assms c by (intro list_all_cache_hit) (simp_all add: colors_only_def)
  then show ?thesis using assms c Some by (simp add: detect_hit colors_only_def)
qed

lemma colors_only_add_override:
  assumes "colors_only s" "py_get data ''color'' = Inr c" "is_color c"
  shows "colors_only (snd (add_override s (Json data)))"
proof -
  from add_override_stores[of s "Json data"] show ?thesis
  proof
    assume "snd (add_override s (Json data)) = s"
    then show ?thesis using assms(1) by simp
  next
    assume "\<exists>data' c' k. Json data = Json data' \<and> py_get data' ''color'' = Inr c' \<and>
      snd (add_override s (Json data)) = s\<lparr>SHIRT_OVERRIDES := dict_set (SHIRT_OVERRIDES s) k c'\<rparr>"
    then obtain k where
      "snd (add_override s (Json data)) = s\<lparr>SHIRT_OVERRIDES := dict_set (SHIRT_OVERRIDES s) k c\<rparr>"
      using assms(2) by auto
    moreover have "list_all (\<lambda>p. is_color (snd p)) (dict_set (SHIRT_OVERRIDES s) k c)"
      using assms by (intro list_all_dict_set) (simp_all add: colors_only_def)
    ultimately show ?thesis using assms(1) by (simp add: colors_only_def)
  qed
qed

lemma map_of_filter_other:
  "k' \<noteq> k \<Longrightarrow> map_of (filter (\<lambda>p. fst p \<noteq> k) c) k' = map_of c k'"
  by (induction c) auto

lemma map_of_butlast:
  "map_of (butlast c) k = Some v \<Longrightarrow> map_of c k = Some v"
  by (induction c) (auto split: if_splits)

lemma entry_kept:
  assumes "map_of (lru s) k = Some v" "map_of (lru (handle s r)) k \<noteq> None"
  shows "map_of (lru (handle s r)) k = Some v"
proof (cases r)
  case (AddOverride b)
  then show ?thesis using assms(1) by (simp add: lru_add_override)
next
  case (Detect w tid)
  show ?thesis
  proof (cases "tid = k")
    case True
    then show ?thesis using Detect assms(1) by (simp add: detect_hit map_of_cache_hit)
  next
    case False
    show ?thesis
    proof (cases "map_of (lru s) tid")
      case (Some u)
      then show ?thesis using Detect False assms(1)
        by (simp add: detect_hit cache_hit_def map_of_filter_other)
    next
      case None
      then have l: "lru (handle s r) = cache_store (lru s) tid (fst (detect_body w s tid))"
        using Detect by (simp add: detect_miss)
      show ?thesis
      proof (cases "length (lru s) \<ge> maxsize")
        case True
        with l False assms(2) obtain u where "map_of (butlast (lru s)) k = Some u"
          by (auto simp: cache_store_def)
        from this map_of_butlast[OF this] assms(1) l False True show ?thesis
          by (simp add: cache_store_def)
      next
        case False2: False
        with l False assms(1) show ?thesis by (simp add: cache_store_def)
      qed
    qed
  qed
qed

lemma entry_kept_run:
  "map_of (lru s) k = Some v \<Longrightarrow> kept_throughout k s rs \<Longrightarrow>
   map_of (lru (foldl handle s rs)) k = Some v"
proof (induction rs arbitrary: s)
  case Nil
  then show ?case by simp
next
  case (Cons r rs)
  from Cons.prems(2) have n: "map_of (lru (handle s r)) k \<noteq> None"
    and c: "kept_throughout k (handle s r) rs" by simp_all
  from entry_kept[OF Cons.prems(1) n] Cons.IH c show ?case by simp
qed

lemma override_honoured_on_miss:
  "dict_get (SHIRT_OVERRIDES s) (KStr tid) = Some c \<Longrightarrow> map_of (lru s) tid = None \<Longrightarrow>
   detect_sleeve_color w s tid = (c, s\<lparr>lru := cache_store (lru s) tid c\<rparr>)"
  by (simp add: detect_miss detect_body_override)

lemma add_override_refused:
  "\<forall>n. fst (add_override s b) \<noteq> Added n \<Longrightarrow> snd (add_override s b) = s"
  by (auto simp: add_override_def add_override_try_def Let_def split: body.splits sum.splits)

lemma colors_only_accepted:
  assumes "colors_only s"
  shows "colors_only (s\<lparr>SHIRT_OVERRIDES := dict_set (SHIRT_OVERRIDES s) k c\<rparr>) = is_color c"
proof
  assume a: "colors_only (s\<lparr>SHIRT_OVERRIDES := dict_set (SHIRT_OVERRIDES s) k c\<rparr>)"
  have "dict_get (SHIRT_OVERRIDES (s\<lparr>SHIRT_OVERRIDES := dict_set (SHIRT_OVERRIDES s) k c\<rparr>)) k =
      Some c"
    by (simp add: dict_get_set)
  from stored_override_color[OF a this] show "is_color c" .
next
  assume "is_color c"
  then have "list_all (\<lambda>p. is_color (snd p)) (dict_set (SHIRT_OVERRIDES s) k c)"
    using assms by (intro list_all_dict_set) (simp_all add: colors_only_def)
  then show "colors_only (s\<lparr>SHIRT_OVERRIDES := dict_set (SHIRT_OVERRIDES s) k c\<rparr>)"
    using assms by (simp add: colors_only_def)
qed

section \<open>Evaluating the examples\<close>

lemma solid_pixels:
  "\<forall>p\<in>set (concat (full_pixels solid)). p = \<lparr>red = 12, green = 34, blue = 56, alpha = 200\<rparr>"
proof
  fix p
  assume "p \<in> set (concat (full_pixels solid))"
  then obtain x y where "p = pixel_at solid x y" unfolding in_full_pixels by blast
  then show "p = \<lparr>red = 12, green = 34, blue = 56, alpha = 200\<rparr>" by (simp add: solid_def)
qed

lemma analyse_solid: "analyse_image tenths solid = Inr (PList [PInt 12, PInt 34, PInt 56])"
proof -
  have "(0::nat) < width solid \<and> (0::nat) < height solid" by (simp add: solid_def)
  then have "pixel_at solid 0 0 \<in> set (concat (full_pixels solid))"
    unfolding in_full_pixels by blast
  then have ne: "concat (full_pixels solid) \<noteq> []" by (metis empty_iff empty_set)
  have "aggregate solid (detection_areas tenths (width solid) (height solid)) =
      Inr (PList [PInt (uint (red \<lparr>red = 12, green = 34, blue = 56, alpha = 200 :: 8 word\<rparr>)),
                  PInt (uint (green \<lparr>red = 12 :: 8 word, green = 34, blue = 56, alpha = 200 :: 8 word\<rparr>)),
                  PInt (uint (blue \<lparr>red = 12 :: 8 word, green = 34 :: 8 word, blue = 56, alpha = 200 :: 8 word\<rparr>))])"
    by (rule aggregate_solid[OF areas_valid[OF mono_tenths] ne solid_pixels]) simp
  then show ?thesis by (simp add: analyse_image_def)
qed

lemma fetch_serving_solid:
  "fetch_and_analyse (serving solid) t = Inr (PList [PInt 12, PInt 34, PInt 56])"
  by (simp add: fetch_and_analyse_def serving_def raise_for_status_def analyse_solid)

lemma detect_solid_initial:
  "detect_sleeve_color (serving solid) initial ''1'' =
     (PList [PInt 12, PInt 34, PInt 56],
      \<lparr>SHIRT_OVERRIDES = [], lru = [(''1'', PList [PInt 12, PInt 34, PInt 56])],
       fetched = [''1'']\<rparr>)"
  by (simp add: detect_sleeve_color_def detect_body_def detect_try_def dict_get_def
      initial_def fetch_serving_solid cache_store_def maxsize_def)

lemma post_ok:
  "add_override s (post t (PList [a, b, c])) =
     (if t = [] then (InvalidParameters, s)
      else (Added (length (dict_set (SHIRT_OVERRIDES s) (KStr t) (PList [a, b, c]))),
            s\<lparr>SHIRT_OVERRIDES := dict_set (SHIRT_OVERRIDES s) (KStr t) (PList [a, b, c])\<rparr>))"
  by (simp add: add_override_def add_override_try_def post_def Let_def)

lemma detect_offline_initial:
  "detect_sleeve_color offline initial ''1'' =
     (white, \<lparr>SHIRT_OVERRIDES = [], lru = [(''1'', white)], fetched = [''1'']\<rparr>)"
  by (simp add: detect_sleeve_color_def detect_body_def detect_try_def dict_get_def
      initial_def fetch_and_analyse_def offline_def cache_store_def maxsize_def)

lemma detect_solid_second:
  "detect_sleeve_color (serving solid)
     \<lparr>SHIRT_OVERRIDES = [], lru = [(''1'', white)], fetched = [''1'']\<rparr> ''2'' =
     (PList [PInt 12, PInt 34, PInt 56],
      \<lparr>SHIRT_OVERRIDES = [],
       lru = [(''2'', PList [PInt 12, PInt 34, PInt 56]), (''1'', white)],
       fetched = [''1'', ''2'']\<rparr>)"
  by (simp add: detect_miss detect_body_no_override dict_get_def fetch_serving_solid
      cache_store_def maxsize_def)

lemma serves_serving: "serves (serving img) t img"
  by (simp add: serves_def serving_def raise_for_status_def)

section \<open>The claims\<close>

subsection \<open>C1: an override and a result cached before it\<close>

text \<open>
  Claim C1 says that after an override C is set for an identifier every later detection
  of it returns C, also when an earlier detection cached another colour. The body of the
  function tests the override table first and the endpoint reports that the override was
  added, but the memoising decorator is consulted before the body and is never cleared.
  The code at the failing input: a first detection of identifier 1 caches the detected
  colour (12, 34, 56); the endpoint then stores the override (10, 20, 30) for 1 and
  reports success; the next detection of 1 still returns (12, 34, 56). With the same
  override and an empty cache the detection returns (10, 20, 30).
\<close>

theorem override_ignored_after_cached_detect:
  "detect_sleeve_color (serving solid) initial ''1'' =
     (PList [PInt 12, PInt 34, PInt 56],
      \<lparr>SHIRT_OVERRIDES = [], lru = [(''1'', PList [PInt 12, PInt 34, PInt 56])],
       fetched = [''1'']\<rparr>) \<and>
   add_override
     \<lparr>SHIRT_OVERRIDES = [], lru = [(''1'', PList [PInt 12, PInt 34, PInt 56])],
      fetched = [''1'']\<rparr>
     (post ''1'' (PList [PInt 10, PInt 20, PInt 30])) =
     (Added 1,
      \<lparr>SHIRT_OVERRIDES = [(KStr ''1'', PList [PInt 10, PInt 20, PInt 30])],
       lru = [(''1'', PList [PInt 12, PInt 34, PInt 56])], fetched = [''1'']\<rparr>) \<and>
   fst (detect_sleeve_color (serving solid)
     \<lparr>SHIRT_OVERRIDES = [(KStr ''1'', PList [PInt 10, PInt 20, PInt 30])],
      lru = [(''1'', PList [PInt 12, PInt 34, PInt 56])], fetched = [''1'']\<rparr> ''1'') =
     PList [PInt 12, PInt 34, PInt 56] \<and>
   PList [PInt 12, PInt 34, PInt 56] \<noteq> PList [PInt 10, PInt 20, PInt 30] \<and>
   fst (detect_sleeve_color (serving solid)
     \<lparr>SHIRT_OVERRIDES = [(KStr ''1'', PList [PInt 10, PInt 20, PInt 30])],
      lru = [], fetched = [''1'']\<rparr> ''1'') =
     PList [PInt 10, PInt 20, PInt 30]"
  by (simp add: detect_solid_initial post_ok detect_hit override_honoured_on_miss dict_get_def)

subsection \<open>C2: the answer from an override and the cache\<close>

text \<open>
  Claim C2 says that a detection answered from the override leaves the cache unchanged
  and that the override table is read afresh on every detection. The decorator stores
  whatever the body returns and skips the body on a hit. The code at the failing input:
  with the override (10, 20, 30) stored for identifier 1 and an empty cache, a detection
  of 1 is answered from the override and leaves the entry (1, (10, 20, 30)) in the cache;
  the endpoint then replaces the override by (1, 2, 3) and reports success; the next
  detection of 1 returns the cached (10, 20, 30). With the replaced override and an empty
  cache the detection returns (1, 2, 3).
\<close>

theorem replaced_override_ignored_when_cached:
  "add_override initial (post ''1'' (PList [PInt 10, PInt 20, PInt 30])) =
     (Added 1,
      \<lparr>SHIRT_OVERRIDES = [(KStr ''1'', PList [PInt 10, PInt 20, PInt 30])], lru = [],
       fetched = []\<rparr>) \<and>
   detect_sleeve_color (serving solid)
     \<lparr>SHIRT_OVERRIDES = [(KStr ''1'', PList [PInt 10, PInt 20, PInt 30])], lru = [],
      fetched = []\<rparr> ''1'' =
     (PList [PInt 10, PInt 20, PInt 30],
      \<lparr>SHIRT_OVERRIDES = [(KStr ''1'', PList [PInt 10, PInt 20, PInt 30])],
       lru = [(''1'', PList [PInt 10, PInt 20, PInt 30])], fetched = []\<rparr>) \<and>
   add_override
     \<lparr>SHIRT_OVERRIDES = [(KStr ''1'', PList [PInt 10, PInt 20, PInt 30])],
      lru = [(''1'', PList [PInt 10, PInt 20, PInt 30])], fetched = []\<rparr>
     (post ''1'' (PList [PInt 1, PInt 2, PInt 3])) =
     (Added 1,
      \<lparr>SHIRT_OVERRIDES = [(KStr ''1'', PList [PInt 1, PInt 2, PInt 3])],
       lru = [(''1'', PList [PInt 10, PInt 20, PInt 30])], fetched = []\<rparr>) \<and>
   fst (detect_sleeve_color (serving solid)
     \<lparr>SHIRT_OVERRIDES = [(KStr ''1'', PList [PInt 1, PInt 2, PInt 3])],
      lru = [(''1'', PList [PInt 10, PInt 20, PInt 30])], fetched = []\<rparr> ''1'') =
     PList [PInt 10, PInt 20, PInt 30] \<and>
   fst (detect_sleeve_color (serving solid)
     \<lparr>SHIRT_OVERRIDES = [(KStr ''1'', PList [PInt 1, PInt 2, PInt 3])],
      lru = [], fetched = []\<rparr> ''1'') =
     PList [PInt 1, PInt 2, PInt 3]"
  by (simp add: post_ok initial_def detect_hit override_honoured_on_miss dict_get_def
      cache_store_def maxsize_def)

subsection \<open>C3: the range of the channels\<close>

text \<open>
  The endpoint checks only that the posted colour is non-empty and has length 3. A run
  that falsifies claim C3 as stated: the body with colour (300, -5, 0) is accepted and
  stored, and the detection of that identifier returns it.
\<close>

theorem channel_range_counterexample:
  "add_override initial (post ''1'' (PList [PInt 300, PInt (- 5), PInt 0])) =
     (Added 1,
      \<lparr>SHIRT_OVERRIDES = [(KStr ''1'', PList [PInt 300, PInt (- 5), PInt 0])], lru = [],
       fetched = []\<rparr>) \<and>
   fst (detect_sleeve_color (serving solid)
     \<lparr>SHIRT_OVERRIDES = [(KStr ''1'', PList [PInt 300, PInt (- 5), PInt 0])], lru = [],
      fetched = []\<rparr> ''1'') = PList [PInt 300, PInt (- 5), PInt 0] \<and>
   \<not> is_color (PList [PInt 300, PInt (- 5), PInt 0])"
  by (simp add: post_ok initial_def detect_miss detect_body_override dict_get_def)

text \<open>
  Claim C3, amended: every colour that detection computes from an image, and every result
  of a detection that no override answers, is a list of three integers from 0 to 255.
  When both tables hold only such triples, a detection returns one and leaves such
  tables. The override endpoint accepts a post whose texture_id is non-empty and hashable
  and whose colour is non-empty and of length 3; it then stores the posted colour
  unchanged under that key, without looking at its elements, and leaves the cache as it
  is. A post that is not answered with success changes nothing. So, from tables that hold
  only such triples, the tables hold only such triples after an accepted post exactly
  when the posted colour is itself such a triple.
\<close>

theorem channel_range_of_detection:
  "(\<forall>c. analyse_image sc img = Inr c \<longrightarrow> is_color c) \<and>
   (dict_get (SHIRT_OVERRIDES s) (KStr tid) = None \<longrightarrow> is_color (fst (detect_body w s tid))) \<and>
   (colors_only s \<longrightarrow>
      is_color (fst (detect_sleeve_color w s tid)) \<and>
      colors_only (snd (detect_sleeve_color w s tid))) \<and>
   (colors_only s \<and> py_get data ''color'' = Inr c' \<and> is_color c' \<longrightarrow>
      colors_only (snd (add_override s (Json data)))) \<and>
   colors_only (snd (add_override s NotJson)) = colors_only s \<and>
   (py_get data ''texture_id'' = Inr t \<and> truthy t \<and> py_key t = Inr k \<and>
    py_get data ''color'' = Inr c' \<and> py_len c' = Inr 3 \<longrightarrow>
      SHIRT_OVERRIDES (snd (add_override s (Json data))) = dict_set (SHIRT_OVERRIDES s) k c' \<and>
      dict_get (SHIRT_OVERRIDES (snd (add_override s (Json data)))) k = Some c' \<and>
      lru (snd (add_override s (Json data))) = lru s \<and>
      (colors_only s \<longrightarrow> colors_only (snd (add_override s (Json data))) = is_color c')) \<and>
   ((\<forall>n. fst (add_override s b) \<noteq> Added n) \<longrightarrow> snd (add_override s b) = s)"
proof (intro conjI)
  show "\<forall>c. analyse_image sc img = Inr c \<longrightarrow> is_color c"
    by (simp add: analyse_image_def is_color_aggregate)
  show "dict_get (SHIRT_OVERRIDES s) (KStr tid) = None \<longrightarrow> is_color (fst (detect_body w s tid))"
    by (simp add: is_color_detection)
  show "colors_only s \<longrightarrow>
      is_color (fst (detect_sleeve_color w s tid)) \<and>
      colors_only (snd (detect_sleeve_color w s tid))"
    using colors_only_detect by blast
  show "colors_only s \<and> py_get data ''color'' = Inr c' \<and> is_color c' \<longrightarrow>
      colors_only (snd (add_override s (Json data)))"
    using colors_only_add_override by blast
  show "colors_only (snd (add_override s NotJson)) = colors_only s"
    by (simp add: add_override_def add_override_try_def)
  show "py_get data ''texture_id'' = Inr t \<and> truthy t \<and> py_key t = Inr k \<and>
    py_get data ''color'' = Inr c' \<and> py_len c' = Inr 3 \<longrightarrow>
      SHIRT_OVERRIDES (snd (add_override s (Json data))) = dict_set (SHIRT_OVERRIDES s) k c' \<and>
      dict_get (SHIRT_OVERRIDES (snd (add_override s (Json data)))) k = Some c' \<and>
      lru (snd (add_override s (Json data))) = lru s \<and>
      (colors_only s \<longrightarrow> colors_only (snd (add_override s (Json data))) = is_color c')"
  proof
    assume a: "py_get data ''texture_id'' = Inr t \<and> truthy t \<and> py_key t = Inr k \<and>
      py_get data ''color'' = Inr c' \<and> py_len c' = Inr 3"
    then have e: "add_override s (Json data) =
        (Added (length (dict_set (SHIRT_OVERRIDES s) k c')),
         s\<lparr>SHIRT_OVERRIDES := dict_set (SHIRT_OVERRIDES s) k c'\<rparr>)"
      by (auto intro!: add_override_ok)
    show "SHIRT_OVERRIDES (snd (add_override s (Json data))) = dict_set (SHIRT_OVERRIDES s) k c' \<and>
      dict_get (SHIRT_OVERRIDES (snd (add_override s (Json data)))) k = Some c' \<and>
      lru (snd (add_override s (Json data))) = lru s \<and>
      (colors_only s \<longrightarrow> colors_only (snd (add_override s (Json data))) = is_color c')"
      using e colors_only_accepted[of s k c'] by (simp add: dict_get_set)
  qed
  show "(\<forall>n. fst (add_override s b) \<noteq> Added n) \<longrightarrow> snd (add_override s b) = s"
    using add_override_refused by blast
qed

theorem channel_range_of_detection_witness:
  "colors_only initial \<and>
   is_color (PList [PInt 12, PInt 34, PInt 56]) \<and>
   is_color (fst (detect_sleeve_color (serving solid) initial ''1'')) \<and>
   colors_only (snd (detect_sleeve_color (serving solid) initial ''1'')) \<and>
   colors_only (snd (add_override initial (post ''1'' (PList [PInt 10, PInt 20, PInt 30])))) \<and>
   SHIRT_OVERRIDES (snd (add_override initial (post ''1'' (PList [PInt 300, PInt (- 5), PInt 0])))) =
     [(KStr ''1'', PList [PInt 300, PInt (- 5), PInt 0])] \<and>
   \<not> colors_only (snd (add_override initial (post ''1'' (PList [PInt 300, PInt (- 5), PInt 0])))) \<and>
   snd (add_override initial (post ''1'' (PList [PInt 10, PInt 20]))) = initial"
  using channel_range_of_detection
    [of tenths solid initial "''1''" "serving solid"
        "PDict [(''texture_id'', PStr ''1''), (''color'', PList [PInt 10, PInt 20, PInt 30])]"
        "PList [PInt 10, PInt 20, PInt 30]" "PStr ''1''" "KStr ''1''"
        "post ''1'' (PList [PInt 10, PInt 20])"]
    channel_range_of_detection
    [of tenths solid initial "''1''" "serving solid"
        "PDict [(''texture_id'', PStr ''1''), (''color'', PList [PInt 300, PInt (- 5), PInt 0])]"
        "PList [PInt 300, PInt (- 5), PInt 0]" "PStr ''1''" "KStr ''1''"
        "post ''1'' (PList [PInt 10, PInt 20])"]
  by (simp add: colors_only_def initial_def analyse_solid post_def add_override_def
      add_override_try_def)

subsection \<open>C4: detection never raises\<close>

text \<open>
  Detection returns what the override table holds, and the endpoint accepts any value of
  length 3. A run that falsifies the last part of claim C4 as stated: the body with the
  colour "abc" is accepted, and the detection of that identifier returns the string, which
  is not a colour triple.
\<close>

theorem detection_returns_stored_value_counterexample:
  "add_override initial (post ''1'' (PStr ''abc'')) =
     (Added 1,
      \<lparr>SHIRT_OVERRIDES = [(KStr ''1'', PStr ''abc'')], lru = [], fetched = []\<rparr>) \<and>
   fst (detect_sleeve_color offline
     \<lparr>SHIRT_OVERRIDES = [(KStr ''1'', PStr ''abc'')], lru = [], fetched = []\<rparr> ''1'') =
     PStr ''abc'' \<and>
   \<not> is_color (PStr ''abc'')"
  by (simp add: add_override_def add_override_try_def post_def initial_def
      detect_miss detect_body_override dict_get_def)

text \<open>
  Claim C4, amended: detection returns a value in every case and never raises. When the
  call is not answered by the cache, every exception of the \<^verbatim>\<open>try\<close> block becomes white;
  in particular a failed connection, a timeout, a status from 400 to 599 and undecodable
  bytes do so when no override answers. Whenever the detection itself runs (no cache
  entry, no override) the result is a colour triple; in all cases the result is a colour
  triple or the value stored for the identifier in the override table or in the cache.
\<close>

theorem detection_never_raises:
  "(map_of (lru s) tid = None \<longrightarrow>
      (\<forall>e. detect_try w (SHIRT_OVERRIDES s) tid = Inl e \<longrightarrow>
           fst (detect_sleeve_color w s tid) = white)) \<and>
   (map_of (lru s) tid = None \<and> dict_get (SHIRT_OVERRIDES s) (KStr tid) = None \<and>
    fetch_fails w tid \<longrightarrow>
      (\<exists>e. detect_try w (SHIRT_OVERRIDES s) tid = Inl e) \<and>
      fst (detect_sleeve_color w s tid) = white) \<and>
   (map_of (lru s) tid = None \<and> dict_get (SHIRT_OVERRIDES s) (KStr tid) = None \<longrightarrow>
      is_color (fst (detect_sleeve_color w s tid))) \<and>
   (is_color (fst (detect_sleeve_color w s tid)) \<or>
    dict_get (SHIRT_OVERRIDES s) (KStr tid) = Some (fst (detect_sleeve_color w s tid)) \<or>
    map_of (lru s) tid = Some (fst (detect_sleeve_color w s tid)))"
proof (intro conjI impI allI)
  fix e
  assume "map_of (lru s) tid = None" "detect_try w (SHIRT_OVERRIDES s) tid = Inl e"
  then show "fst (detect_sleeve_color w s tid) = white"
    by (simp add: detect_miss detect_body_def)
next
  assume a: "map_of (lru s) tid = None \<and> dict_get (SHIRT_OVERRIDES s) (KStr tid) = None \<and>
    fetch_fails w tid"
  then obtain e where e: "fetch_and_analyse w tid = Inl e" using fetch_fails_Inl by blast
  with a show "\<exists>e. detect_try w (SHIRT_OVERRIDES s) tid = Inl e"
    by (simp add: detect_try_def)
  from a e show "fst (detect_sleeve_color w s tid) = white"
    by (simp add: detect_miss detect_body_no_override)
next
  assume "map_of (lru s) tid = None \<and> dict_get (SHIRT_OVERRIDES s) (KStr tid) = None"
  then show "is_color (fst (detect_sleeve_color w s tid))"
    by (simp add: detect_miss is_color_detection)
next
  show "is_color (fst (detect_sleeve_color w s tid)) \<or>
    dict_get (SHIRT_OVERRIDES s) (KStr tid) = Some (fst (detect_sleeve_color w s tid)) \<or>
    map_of (lru s) tid = Some (fst (detect_sleeve_color w s tid))"
  proof (cases "map_of (lru s) tid")
    case (Some v)
    then show ?thesis by (simp add: detect_hit)
  next
    case None
    show ?thesis
    proof (cases "dict_get (SHIRT_OVERRIDES s) (KStr tid)")
      case n: None
      then show ?thesis using None by (simp add: detect_miss is_color_detection)
    next
      case (Some c)
      then show ?thesis using None by (simp add: detect_miss detect_body_override)
    qed
  qed
qed

theorem detection_never_raises_witness:
  "map_of (lru initial) ''1'' = None \<and>
   dict_get (SHIRT_OVERRIDES initial) (KStr ''1'') = None \<and>
   fetch_fails offline ''1'' \<and>
   fst (detect_sleeve_color offline initial ''1'') = white"
  using detection_never_raises [of initial "''1''" offline]
  by (simp add: initial_def dict_get_def fetch_fails_def offline_def)

subsection \<open>C5: no pixel above the threshold\<close>

text \<open>
  Claim C5: when the remote source serves an image in which every pixel has alpha at most
  128, the detection (no cache entry, no override) returns white, for every truncation of
  the box bounds. The example image has alpha exactly 128 everywhere.
\<close>

theorem no_opaque_pixel_gives_white:
  assumes "serves w tid img"
    and "map_of (lru s) tid = None"
    and "dict_get (SHIRT_OVERRIDES s) (KStr tid) = None"
    and "\<forall>p\<in>set (concat (full_pixels img)). alpha p \<le> 128"
  shows "fst (detect_sleeve_color w s tid) = white"
proof -
  have "opaque (full_pixels img) = []"
    using assms(4) by (auto simp: opaque_def filter_empty_conv not_less)
  then have "analyse_image (int_mul w) img = Inr white \<or>
      analyse_image (int_mul w) img = Inl ValueError"
    unfolding analyse_image_def by (rule aggregate_no_opaque)
  then have "(case fetch_and_analyse w tid of Inl e \<Rightarrow> white | Inr c \<Rightarrow> c) = white"
    using serves_analyse[OF assms(1)] by auto
  then show ?thesis using assms(2,3) by (simp add: detect_miss detect_body_no_override)
qed

theorem no_opaque_pixel_gives_white_witness:
  "serves (serving faint) ''5'' faint \<and>
   alpha (pixel_at faint 0 0) = 128 \<and>
   fst (detect_sleeve_color (serving faint) initial ''5'') = white"
proof -
  have "\<forall>p\<in>set (concat (full_pixels faint)). alpha p \<le> 128"
  proof
    fix p
    assume "p \<in> set (concat (full_pixels faint))"
    then obtain x y where "p = pixel_at faint x y" unfolding in_full_pixels by blast
    then show "alpha p \<le> 128" by (simp add: faint_def)
  qed
  then have "fst (detect_sleeve_color (serving faint) initial ''5'') = white"
    by (intro no_opaque_pixel_gives_white[OF serves_serving])
      (simp_all add: initial_def dict_get_def)
  then show ?thesis using serves_serving by (simp add: faint_def)
qed

subsection \<open>C6: one opaque colour\<close>

text \<open>
  Claim C6: when the remote source serves an image with at least one pixel, all of whose
  pixels are one colour with alpha above 128, the analysis of the image, and with it the
  detection (no cache entry, no override), returns exactly the red, green and blue of that
  colour, for every width and height, whether the boxes or the whole-image fallback
  supplied the pixels. The truncated product is only required to grow with the fraction,
  as the double-precision product does, so that no box is inverted.
\<close>

theorem solid_image_gives_its_color:
  assumes "\<forall>d. mono (int_mul w d)"
    and "serves w tid img"
    and "map_of (lru s) tid = None"
    and "dict_get (SHIRT_OVERRIDES s) (KStr tid) = None"
    and "0 < width img" and "0 < height img"
    and "\<forall>p\<in>set (concat (full_pixels img)). p = q"
    and "128 < alpha q"
  shows "analyse_image (int_mul w) img =
           Inr (PList [PInt (uint (red q)), PInt (uint (green q)), PInt (uint (blue q))]) \<and>
         fst (detect_sleeve_color w s tid) =
           PList [PInt (uint (red q)), PInt (uint (green q)), PInt (uint (blue q))]"
proof -
  have "pixel_at img 0 0 \<in> set (concat (full_pixels img))"
    unfolding in_full_pixels using assms(5,6) by blast
  then have ne: "concat (full_pixels img) \<noteq> []" by (metis empty_iff empty_set)
  have a: "analyse_image (int_mul w) img =
      Inr (PList [PInt (uint (red q)), PInt (uint (green q)), PInt (uint (blue q))])"
    unfolding analyse_image_def
    by (rule aggregate_solid[OF areas_valid[OF assms(1)] ne assms(7,8)])
  then show ?thesis
    using assms(3,4) serves_analyse[OF assms(2)]
    by (simp add: detect_miss detect_body_no_override)
qed

theorem solid_image_gives_its_color_witness:
  "serves (serving solid) ''7'' solid \<and>
   pixel_at solid 3 4 = \<lparr>red = 12, green = 34, blue = 56, alpha = 200\<rparr> \<and>
   fst (detect_sleeve_color (serving solid) initial ''7'') = PList [PInt 12, PInt 34, PInt 56]"
proof -
  have m: "\<forall>d. mono (int_mul (serving solid) d)"
    using mono_tenths by (simp add: serving_def)
  have "fst (detect_sleeve_color (serving solid) initial ''7'') =
      PList [PInt (uint (red \<lparr>red = 12, green = 34, blue = 56, alpha = 200 :: 8 word\<rparr>)),
             PInt (uint (green \<lparr>red = 12 :: 8 word, green = 34, blue = 56, alpha = 200 :: 8 word\<rparr>)),
             PInt (uint (blue \<lparr>red = 12 :: 8 word, green = 34 :: 8 word, blue = 56, alpha = 200 :: 8 word\<rparr>))]"
    using solid_image_gives_its_color[OF m serves_serving _ _ _ _ solid_pixels, of initial]
    by (simp add: initial_def dict_get_def solid_def)
  then show ?thesis using serves_serving by (simp add: solid_def)
qed

subsection \<open>C7: the second call\<close>

text \<open>
  Claim C7: of two consecutive detections of one identifier against the same remote
  source, the second returns the colour of the first and sends no request, because the
  first leaves that colour in the cache under the identifier. This holds for every
  state, with or without an override.
\<close>

theorem second_call_is_answered_from_cache:
  "fst (detect_sleeve_color w (snd (detect_sleeve_color w s tid)) tid) =
     fst (detect_sleeve_color w s tid) \<and>
   fetched (snd (detect_sleeve_color w (snd (detect_sleeve_color w s tid)) tid)) =
     fetched (snd (detect_sleeve_color w s tid)) \<and>
   map_of (lru (snd (detect_sleeve_color w s tid))) tid = Some (fst (detect_sleeve_color w s tid))"
  using detect_caches[of w s tid] by (simp add: detect_hit)

theorem second_call_is_answered_from_cache_witness:
  "fst (detect_sleeve_color (serving solid)
          (snd (detect_sleeve_color (serving solid) initial ''1'')) ''1'') =
     PList [PInt 12, PInt 34, PInt 56] \<and>
   fetched (snd (detect_sleeve_color (serving solid)
          (snd (detect_sleeve_color (serving solid) initial ''1'')) ''1'')) = [''1'']"
  using second_call_is_answered_from_cache [of "serving solid" initial "''1''"]
  by (simp add: detect_solid_initial)

subsection \<open>C8: the size of the override table\<close>

text \<open>
  Claim C8: a post whose texture_id is non-empty (and hashable, as a string is) and whose
  colour has length 3 is answered with success and the size of the table, which is the
  previous size plus one when the key is new and the previous size when the key is
  already present; the key then maps to the posted colour.
\<close>

theorem add_override_counts:
  assumes "py_get data ''texture_id'' = Inr t" and "truthy t" and "py_key t = Inr k"
    and "py_get data ''color'' = Inr c" and "py_len c = Inr 3"
  shows "fst (add_override s (Json data)) =
           Added (length (SHIRT_OVERRIDES s) +
                  (if dict_get (SHIRT_OVERRIDES s) k = None then 1 else 0)) \<and>
         SHIRT_OVERRIDES (snd (add_override s (Json data))) = dict_set (SHIRT_OVERRIDES s) k c \<and>
         dict_get (dict_set (SHIRT_OVERRIDES s) k c) k = Some c"
  using add_override_ok[OF assms(1,4,2,3,5), of s]
  by (simp add: length_dict_set dict_get_set)

theorem add_override_counts_witness:
  "fst (add_override initial (post ''1'' (PList [PInt 10, PInt 20, PInt 30]))) = Added 1 \<and>
   fst (add_override
          \<lparr>SHIRT_OVERRIDES = [(KStr ''1'', PList [PInt 10, PInt 20, PInt 30])], lru = [],
           fetched = []\<rparr>
          (post ''1'' (PList [PInt 1, PInt 2, PInt 3]))) = Added 1"
  using add_override_counts
    [of "PDict [(''texture_id'', PStr ''1''), (''color'', PList [PInt 10, PInt 20, PInt 30])]"
        "PStr ''1''" "KStr ''1''" "PList [PInt 10, PInt 20, PInt 30]" initial]
    add_override_counts
    [of "PDict [(''texture_id'', PStr ''1''), (''color'', PList [PInt 1, PInt 2, PInt 3])]"
        "PStr ''1''" "KStr ''1''" "PList [PInt 1, PInt 2, PInt 3]"
        "\<lparr>SHIRT_OVERRIDES = [(KStr ''1'', PList [PInt 10, PInt 20, PInt 30])], lru = [],
          fetched = []\<rparr>"]
  by (simp add: post_def initial_def dict_get_def)

subsection \<open>C9: the order of the boxes\<close>

text \<open>
  Claim C9: processing the four boxes in any other order gives the same result as the
  order of the source, for every image.
\<close>

theorem region_order_is_irrelevant:
  assumes "mset bs = mset (detection_areas sc (width img) (height img))"
  shows "aggregate img bs = analyse_image sc img"
  unfolding analyse_image_def by (rule aggregate_perm[OF assms])

theorem region_order_is_irrelevant_witness:
  "aggregate solid (rev (detection_areas tenths 10 10)) = analyse_image tenths solid"
  using region_order_is_irrelevant [of "rev (detection_areas tenths 10 10)" tenths solid]
  by (simp add: solid_def)

subsection \<open>C10: a failure is cached\<close>

text \<open>
  Claim C10: when a detection with no cache entry and no override fails at the remote
  source, it returns white and stores white in the cache under the identifier. After any
  sequence of further requests, each of which leaves an entry for the identifier in the
  cache (it is not evicted), a detection of the identifier returns white and sends no
  request, whatever the remote source would now answer.
\<close>

theorem failure_is_cached:
  assumes "map_of (lru s) tid = None"
    and "dict_get (SHIRT_OVERRIDES s) (KStr tid) = None"
    and "fetch_fails w tid"
  shows "fst (detect_sleeve_color w s tid) = white \<and>
         map_of (lru (snd (detect_sleeve_color w s tid))) tid = Some white \<and>
         (\<forall>rs w'. kept_throughout tid (snd (detect_sleeve_color w s tid)) rs \<longrightarrow>
            fst (detect_sleeve_color w'
                   (foldl handle (snd (detect_sleeve_color w s tid)) rs) tid) = white \<and>
            fetched (snd (detect_sleeve_color w'
                   (foldl handle (snd (detect_sleeve_color w s tid)) rs) tid)) =
              fetched (foldl handle (snd (detect_sleeve_color w s tid)) rs))"
proof -
  obtain e where "fetch_and_analyse w tid = Inl e" using fetch_fails_Inl[OF assms(3)] by blast
  then have r: "fst (detect_sleeve_color w s tid) = white"
    using assms(1,2) by (simp add: detect_miss detect_body_no_override)
  then have c: "map_of (lru (snd (detect_sleeve_color w s tid))) tid = Some white"
    using detect_caches[of w s tid] by simp
  have "\<And>rs. kept_throughout tid (snd (detect_sleeve_color w s tid)) rs \<Longrightarrow>
      map_of (lru (foldl handle (snd (detect_sleeve_color w s tid)) rs)) tid = Some white"
    by (rule entry_kept_run[OF c])
  then show ?thesis using r c by (simp add: detect_hit)
qed

theorem failure_is_cached_witness:
  "fetch_fails offline ''1'' \<and>
   serves (serving solid) ''1'' solid \<and>
   fst (detect_sleeve_color offline initial ''1'') = white \<and>
   map_of (lru (snd (detect_sleeve_color offline initial ''1''))) ''1'' = Some white \<and>
   kept_throughout ''1'' (snd (detect_sleeve_color offline initial ''1''))
     [Detect (serving solid) ''2'',
      AddOverride (post ''3'' (PList [PInt 1, PInt 2, PInt 3]))] \<and>
   fst (detect_sleeve_color (serving solid)
     (foldl handle (snd (detect_sleeve_color offline initial ''1''))
        [Detect (serving solid) ''2'',
         AddOverride (post ''3'' (PList [PInt 1, PInt 2, PInt 3]))]) ''1'') = white \<and>
   fetched (snd (detect_sleeve_color (serving solid)
     (foldl handle (snd (detect_sleeve_color offline initial ''1''))
        [Detect (serving solid) ''2'',
         AddOverride (post ''3'' (PList [PInt 1, PInt 2, PInt 3]))]) ''1'')) = [''1'', ''2'']"
proof -
  have f: "fetch_fails offline ''1''" by (simp add: fetch_fails_def offline_def)
  have k: "kept_throughout ''1'' (snd (detect_sleeve_color offline initial ''1''))
      [Detect (serving solid) ''2'', AddOverride (post ''3'' (PList [PInt 1, PInt 2, PInt 3]))]"
    by (simp add: detect_offline_initial detect_solid_second post_ok)
  have l: "fetched (foldl handle (snd (detect_sleeve_color offline initial ''1''))
      [Detect (serving solid) ''2'', AddOverride (post ''3'' (PList [PInt 1, PInt 2, PInt 3]))]) =
      [''1'', ''2'']"
    by (simp add: detect_offline_initial detect_solid_second post_ok)
  have m: "map_of (lru initial) ''1'' = None"
    and d: "dict_get (SHIRT_OVERRIDES initial) (KStr ''1'') = None"
    by (simp_all add: initial_def dict_get_def)
  note t = failure_is_cached[OF m d f]
  from t have 1: "fst (detect_sleeve_color offline initial ''1'') = white"
    and 2: "map_of (lru (snd (detect_sleeve_color offline initial ''1''))) ''1'' = Some white"
    by blast+
  from t k have 3: "fst (detect_sleeve_color (serving solid)
     (foldl handle (snd (detect_sleeve_color offline initial ''1''))
        [Detect (serving solid) ''2'',
         AddOverride (post ''3'' (PList [PInt 1, PInt 2, PInt 3]))]) ''1'') = white"
    and 4: "fetched (snd (detect_sleeve_color (serving solid)
     (foldl handle (snd (detect_sleeve_color offline initial ''1''))
        [Detect (serving solid) ''2'',
         AddOverride (post ''3'' (PList [PInt 1, PInt 2, PInt 3]))]) ''1'')) =
      fetched (foldl handle (snd (detect_sleeve_color offline initial ''1''))
        [Detect (serving solid) ''2'',
         AddOverride (post ''3'' (PList [PInt 1, PInt 2, PInt 3]))])"
    by blast+
  from 4 l have 5: "fetched (snd (detect_sleeve_color (serving solid)
     (foldl handle (snd (detect_sleeve_color offline initial ''1''))
        [Detect (serving solid) ''2'',
         AddOverride (post ''3'' (PList [PInt 1, PInt 2, PInt 3]))]) ''1'')) = [''1'', ''2'']"
    by (rule trans)
  from f serves_serving[of solid "''1''"] 1 2 k 3 5 show ?thesis by blast
qed

end
